theory Spec2Isabelle
  imports Main "HOL-Library.Word"
begin

section \<open>Python values, exceptions and strings\<close>

text \<open>
  The speech model's output is dynamically typed. \<open>pyval\<close> is the universe of values
  the application is modelled on: \<open>None\<close>, booleans, integers, strings, lists and
  dictionaries with string keys (an association list with distinct keys). A \<open>string\<close>
  is a list of characters; the non-ASCII characters of the user interface messages are
  written as their UTF-8 bytes.
\<close>

datatype pyval =
    PyNone
  | PyBool bool
  | PyInt int
  | PyStr string
  | PyList "pyval list"
  | PyDict "(string \<times> pyval) list"

text \<open>
  Exceptions. \<open>Exception msg\<close> is an instance of any subclass of Python's
  \<open>Exception\<close> whose \<open>str(e)\<close> is \<open>msg\<close>; \<open>StopException\<close> is what Streamlit's
  \<open>st.stop()\<close> raises to halt the script: it derives from \<open>BaseException\<close> and not
  from \<open>Exception\<close>, so an \<open>except Exception\<close> clause does not catch it.
  Asynchronous interrupts are outside the model.
\<close>

datatype exn = StopException | Exception string

fun is_Exception :: "exn \<Rightarrow> bool" where
  "is_Exception StopException = False"
| "is_Exception (Exception msg) = True"

fun exn_str :: "exn \<Rightarrow> string" where
  "exn_str StopException = []"
| "exn_str (Exception msg) = msg"

type_synonym byte = "8 word"

fun truthy :: "pyval \<Rightarrow> bool" where
  "truthy PyNone = False"
| "truthy (PyBool b) = b"
| "truthy (PyInt i) = (i \<noteq> 0)"
| "truthy (PyStr s) = (s \<noteq> [])"
| "truthy (PyList xs) = (xs \<noteq> [])"
| "truthy (PyDict d) = (d \<noteq> [])"

fun type_name :: "pyval \<Rightarrow> string" where
  "type_name PyNone = ''NoneType''"
| "type_name (PyBool b) = ''bool''"
| "type_name (PyInt i) = ''int''"
| "type_name (PyStr s) = ''str''"
| "type_name (PyList xs) = ''list''"
| "type_name (PyDict d) = ''dict''"

definition no_len :: "pyval \<Rightarrow> exn" where
  "no_len v = Exception (''object of type '' @ [CHR 0x27] @ type_name v @ [CHR 0x27] @ '' has no len()'')"

text \<open>\<open>len(v)\<close>: a \<open>TypeError\<close> for a value without a length.\<close>

fun py_len :: "pyval \<Rightarrow> exn + nat" where
  "py_len (PyStr s) = Inr (length s)"
| "py_len (PyList xs) = Inr (length xs)"
| "py_len (PyDict d) = Inr (length d)"
| "py_len v = Inl (no_len v)"

text \<open>
  \<open>v[0]\<close>: the first element of a list, the first character of a string, the entry
  under the key \<open>0\<close> of a dictionary (a \<open>KeyError\<close>, the keys being strings), an
  \<open>IndexError\<close> on an empty sequence, a \<open>TypeError\<close> otherwise.
\<close>

fun py_getitem0 :: "pyval \<Rightarrow> exn + pyval" where
  "py_getitem0 (PyList []) = Inl (Exception ''list index out of range'')"
| "py_getitem0 (PyList (x # xs)) = Inr x"
| "py_getitem0 (PyStr []) = Inl (Exception ''string index out of range'')"
| "py_getitem0 (PyStr (c # cs)) = Inr (PyStr [c])"
| "py_getitem0 (PyDict d) = Inl (Exception ''0'')"
| "py_getitem0 v =
     Inl (Exception ([CHR 0x27] @ type_name v @ [CHR 0x27] @ '' object is not subscriptable''))"

fun nat_digits :: "nat \<Rightarrow> string" where
  "nat_digits n =
     (if n < 10 then [''0123456789'' ! n]
      else nat_digits (n div 10) @ [''0123456789'' ! (n mod 10)])"

declare nat_digits.simps [simp del]

definition int_str :: "int \<Rightarrow> string" where
  "int_str i = (if i < 0 then ''-'' @ nat_digits (nat (- i)) else nat_digits (nat i))"

text \<open>
  \<open>str(v)\<close>. The rendering of a list or a dictionary (Python's container \<open>repr\<close>) is
  not re-implemented: it is the parameter \<open>container_repr\<close>.
\<close>

fun py_str :: "(pyval \<Rightarrow> string) \<Rightarrow> pyval \<Rightarrow> string" where
  "py_str container_repr PyNone = ''None''"
| "py_str container_repr (PyBool b) = (if b then ''True'' else ''False'')"
| "py_str container_repr (PyInt i) = int_str i"
| "py_str container_repr (PyStr s) = s"
| "py_str container_repr v = container_repr v"

section \<open>Paths\<close>

text \<open>
  Paths are those of a POSIX host. \<open>os.path.join(a, b)\<close>: an absolute \<open>b\<close>
  discards \<open>a\<close>.
\<close>

definition path_join :: "string \<Rightarrow> string \<Rightarrow> string" where
  "path_join a b =
     (if b \<noteq> [] \<and> hd b = CHR ''/'' then b
      else if a = [] \<or> last a = CHR ''/'' then a @ b
      else a @ ''/'' @ b)"

fun split_sep :: "string \<Rightarrow> string list" where
  "split_sep [] = [] # []"
| "split_sep (c # cs) =
     (if c = CHR ''/'' then [] # split_sep cs
      else (case split_sep cs of [] \<Rightarrow> [c] # [] | p # ps \<Rightarrow> (c # p) # ps))"

text \<open>
  \<open>PurePosixPath(p).name\<close>: the last component that is neither empty nor \<open>.\<close>, the
  empty string when there is none.
\<close>

definition path_name :: "string \<Rightarrow> string" where
  "path_name p =
     (case rev (filter (\<lambda>x. x \<noteq> [] \<and> x \<noteq> ''.'') (split_sep p)) of
        [] \<Rightarrow> []
      | x # xs \<Rightarrow> x)"

text \<open>
  \<open>PurePath.suffix\<close> (Python up to 3.13): with \<open>i\<close> the index of the last dot of the
  name, the name from \<open>i\<close> on when \<open>0 < i < len(name) - 1\<close>, and the empty string
  otherwise.
\<close>

definition path_suffix :: "string \<Rightarrow> string" where
  "path_suffix p =
     (let name = path_name p;
          k = length (takeWhile (\<lambda>c. c \<noteq> CHR ''.'') (rev name))
      in if k = length name then []
         else (let i = length name - 1 - k
               in if 0 < i \<and> i + 1 < length name then drop i name else []))"

text \<open>\<open>str.lower()\<close> on the ASCII letters; other characters are left as they are.\<close>

definition lower_char :: "char \<Rightarrow> char" where
  "lower_char c =
     (case map_of (zip ''ABCDEFGHIJKLMNOPQRSTUVWXYZ'' ''abcdefghijklmnopqrstuvwxyz'') c of
        Some d \<Rightarrow> d
      | None \<Rightarrow> c)"

definition lower :: "string \<Rightarrow> string" where
  "lower s = map lower_char s"

definition file_extension :: "string \<Rightarrow> string" where
  "file_extension name = lower (path_suffix name)"

definition FUNASR_SUPPORTED_FORMATS :: "string set" where
  "FUNASR_SUPPORTED_FORMATS = {''.wav'', ''.mp3'', ''.flac'', ''.m4a'', ''.ogg''}"

definition ACCEPTED_FORMATS :: "string set" where
  "ACCEPTED_FORMATS =
     {''.wav'', ''.mp3'', ''.flac'', ''.m4a'', ''.ogg'', ''.wma'', ''.aac'',
      ''.mp4'', ''.avi'', ''.mkv'', ''.mov'', ''.wmv'', ''.webm'', ''.3gp''}"

section \<open>The world: file system, user interface and external programs\<close>

text \<open>
  Every effect of the application is an event of the trace, in program order: the calls
  into the Streamlit user interface, the file system operations, the start of the
  external tool, the call of the model, and the two calls \<open>process_audio_file\<close> makes
  into the converter and the transcription step.
\<close>

datatype event =
    StError string
  | StInfo string
  | StSuccess string
  | StSpinner string
  | StSubheader string
  | StTextArea string pyval
  | StMarkdown string
  | StCode pyval
  | TempDirCreated string
  | FileWritten string "byte list"
  | TempDirRemoved string
  | FfmpegStarted string string
  | ModelGenerate string
  | ConvertCalled string string
  | TranscribeCalled string

record world =
  dirs :: "string list"
  files :: "(string \<times> byte list) list"
  trace :: "event list"

definition emit :: "event \<Rightarrow> world \<Rightarrow> world" where
  "emit e w = w\<lparr>trace := trace w @ [e]\<rparr>"

definition emits :: "event list \<Rightarrow> world \<Rightarrow> world" where
  "emits es w = w\<lparr>trace := trace w @ es\<rparr>"

definition store_file :: "string \<Rightarrow> byte list \<Rightarrow> world \<Rightarrow> world" where
  "store_file p content w = w\<lparr>files := (p, content) # filter (\<lambda>(q, c). q \<noteq> p) (files w)\<rparr>"

definition read_file :: "world \<Rightarrow> string \<Rightarrow> byte list option" where
  "read_file w p = map_of (files w) p"

text \<open>\<open>inside_dir d p\<close>: the path \<open>p\<close> lies below the directory \<open>d\<close>.\<close>

definition inside_dir :: "string \<Rightarrow> string \<Rightarrow> bool" where
  "inside_dir d p = (take (length d + 1) p = d @ ''/'')"

text \<open>
  \<open>tempfile.TemporaryDirectory()\<close>: entering the \<open>with\<close> block creates the directory,
  leaving it (by any path) removes the directory and everything below it.
\<close>

definition create_temp_dir :: "string \<Rightarrow> world \<Rightarrow> world" where
  "create_temp_dir d w = emit (TempDirCreated d) (w\<lparr>dirs := d # dirs w\<rparr>)"

definition remove_temp_dir :: "string \<Rightarrow> world \<Rightarrow> world" where
  "remove_temp_dir d w =
     emit (TempDirRemoved d)
       (w\<lparr>dirs := filter (\<lambda>p. p \<noteq> d \<and> \<not> inside_dir d p) (dirs w),
          files := filter (\<lambda>(p, c). \<not> inside_dir d p) (files w)\<rparr>)"

text \<open>
  What running the external tool does: it exits with status 0, having written the
  output file; or \<open>ffmpeg.Error\<close> is raised, and then the component is what
  \<open>e.stderr.decode()\<close> evaluates to (the text, or the exception it raises when the
  captured output is absent or is not valid UTF-8); or another exception is raised.
\<close>

datatype run_outcome =
    RunOk "byte list"
  | RunFfmpegError "exn + string"
  | RunException string

datatype AutoModel = AutoModelHandle

text \<open>
  The parts of a run that the repository's code does not decide: the command search
  path, the external tool, the construction and the output of the speech model, the name
  \<open>tempfile\<close> picks, whether a file can be opened for writing (\<open>Some msg\<close>: \<open>open\<close>
  raises an \<open>OSError\<close>), and Python's rendering of containers.
\<close>

record runtime =
  which :: "string \<Rightarrow> string option"
  ffmpeg_run :: "string \<Rightarrow> string \<Rightarrow> run_outcome"
  model_cached :: bool
  construct_model :: "string option"
  generate :: "string \<Rightarrow> string + pyval"
  mkdtemp :: string
  open_wb :: "string \<Rightarrow> string option"
  container_repr :: "pyval \<Rightarrow> string"

section \<open>app.py\<close>

text \<open>
  \<open>load_funasr_model\<close>, under \<open>st.cache_resource\<close>: a cached model is returned at
  once. Otherwise \<open>AutoModel(...)\<close> is called (\<open>construct_model\<close>: \<open>None\<close> when it
  returns, \<open>Some msg\<close> when it raises); an exception is reported with \<open>st.error\<close> and
  the script is halted with \<open>st.stop()\<close>.
\<close>

definition load_funasr_model :: "runtime \<Rightarrow> world \<Rightarrow> (exn + AutoModel) \<times> world" where
  "load_funasr_model rt w =
     (if model_cached rt then (Inr AutoModelHandle, w)
      else
        (let w1 = emit (StSpinner ''Loading speech recognition model... This may take a moment.'') w
         in case construct_model rt of
              None \<Rightarrow> (Inr AutoModelHandle, w1)
            | Some msg \<Rightarrow> (Inl StopException, emit (StError (''Error loading model: '' @ msg)) w1)))"

definition is_ffmpeg_available :: "runtime \<Rightarrow> bool" where
  "is_ffmpeg_available rt = (which rt ''ffmpeg'' \<noteq> None)"

definition nl :: string where
  "nl = [CHR 0x0A]"

definition guidance_ubuntu :: string where
  "guidance_ubuntu = ''- **Ubuntu/Debian:** `sudo apt update && sudo apt install ffmpeg`''"

definition guidance_macos :: string where
  "guidance_macos = ''- **macOS:** `brew install ffmpeg`''"

definition guidance_windows :: string where
  "guidance_windows =
     ''- **Windows:** Download from [ffmpeg.org](https://ffmpeg.org/download.html) and add to PATH''"

definition ffmpeg_missing_message :: string where
  "ffmpeg_missing_message =
     [CHR 0xE2, CHR 0x9D, CHR 0x8C] @ '' **FFmpeg is not installed or not found in PATH.**'' @ nl @ nl
     @ ''FFmpeg is required to convert video files and unsupported audio formats.'' @ nl @ nl
     @ ''**Installation Instructions:**'' @ nl
     @ guidance_ubuntu @ nl
     @ guidance_macos @ nl
     @ guidance_windows @ nl @ nl
     @ ''After installing FFmpeg, restart the application.''"

text \<open>
  \<open>AudioConverter.convert_to_wav\<close>. An exception raised while the handler of
  \<open>ffmpeg.Error\<close> builds its message is not caught by the clause that follows it.
\<close>

definition convert_to_wav :: "runtime \<Rightarrow> string \<Rightarrow> string \<Rightarrow> world \<Rightarrow> (exn + bool) \<times> world" where
  "convert_to_wav rt input_path output_path w =
     (if \<not> is_ffmpeg_available rt then (Inr False, emit (StError ffmpeg_missing_message) w)
      else
        (let w1 = emit (FfmpegStarted input_path output_path) w
         in case ffmpeg_run rt input_path output_path of
              RunOk wav \<Rightarrow> (Inr True, store_file output_path wav w1)
            | RunFfmpegError stderr \<Rightarrow>
                (case stderr of
                   Inr text \<Rightarrow> (Inr False, emit (StError (''FFmpeg conversion error: '' @ text)) w1)
                 | Inl e \<Rightarrow> (Inl e, w1))
            | RunException msg \<Rightarrow>
                (Inr False, emit (StError (''Unexpected error during conversion: '' @ msg)) w1)))"

record SpeechToTextModel =
  model :: "AutoModel option"

definition get_model ::
  "runtime \<Rightarrow> SpeechToTextModel \<Rightarrow> world \<Rightarrow> (exn + AutoModel) \<times> SpeechToTextModel \<times> world" where
  "get_model rt self w =
     (case model self of
        None \<Rightarrow>
          (case load_funasr_model rt w of
             (Inl e, w') \<Rightarrow> (Inl e, self, w')
           | (Inr m, w') \<Rightarrow> (Inr m, self\<lparr>model := Some m\<rparr>, w'))
      | Some m \<Rightarrow> (Inr m, self, w))"

text \<open>The extraction of the text from what \<open>model.generate\<close> returned.\<close>

definition extract_text :: "runtime \<Rightarrow> pyval \<Rightarrow> exn + pyval" where
  "extract_text rt result =
     (if \<not> truthy result then Inr PyNone
      else
        (case py_len result of
           Inl e \<Rightarrow> Inl e
         | Inr n \<Rightarrow>
             (if \<not> 0 < n then Inr PyNone
              else
                (case py_getitem0 result of
                   Inl e \<Rightarrow> Inl e
                 | Inr r0 \<Rightarrow>
                     (case r0 of
                        PyDict d \<Rightarrow>
                          (case map_of d ''text'' of
                             Some v \<Rightarrow> Inr v
                           | None \<Rightarrow> Inr (PyStr (py_str (container_repr rt) r0)))
                      | PyStr s \<Rightarrow> Inr (PyStr s)
                      | _ \<Rightarrow> Inr (PyStr (py_str (container_repr rt) r0)))))))"

text \<open>The body of the \<open>try\<close> block of \<open>SpeechToTextModel.transcribe\<close>.\<close>

definition transcribe_try ::
  "runtime \<Rightarrow> SpeechToTextModel \<Rightarrow> string \<Rightarrow> world \<Rightarrow> (exn + pyval) \<times> SpeechToTextModel \<times> world" where
  "transcribe_try rt self audio_path w =
     (case get_model rt self w of
        (Inl e, self', w') \<Rightarrow> (Inl e, self', w')
      | (Inr m, self', w') \<Rightarrow>
          (let w1 = emit (ModelGenerate audio_path) w'
           in case generate rt audio_path of
                Inl msg \<Rightarrow> (Inl (Exception msg), self', w1)
              | Inr result \<Rightarrow> (extract_text rt result, self', w1)))"

definition transcribe ::
  "runtime \<Rightarrow> SpeechToTextModel \<Rightarrow> string \<Rightarrow> world \<Rightarrow> (exn + pyval) \<times> SpeechToTextModel \<times> world" where
  "transcribe rt self audio_path w =
     (case transcribe_try rt self audio_path w of
        (Inl e, self', w') \<Rightarrow>
          (if is_Exception e
           then (Inr PyNone, self', emit (StError (''Error during transcription: '' @ exn_str e)) w')
           else (Inl e, self', w'))
      | (Inr v, self', w') \<Rightarrow> (Inr v, self', w'))"

record uploaded_file =
  name :: string
  buffer :: "byte list"

text \<open>The body of the \<open>with tempfile.TemporaryDirectory()\<close> block of \<open>process_audio_file\<close>.\<close>

definition process_in_temp_dir ::
  "runtime \<Rightarrow> uploaded_file \<Rightarrow> SpeechToTextModel \<Rightarrow> string \<Rightarrow> string \<Rightarrow> world
     \<Rightarrow> (exn + pyval) \<times> SpeechToTextModel \<times> world" where
  "process_in_temp_dir rt up speech_model file_ext temp_dir w =
     (let input_path = path_join temp_dir (name up)
      in case open_wb rt input_path of
           Some msg \<Rightarrow> (Inl (Exception msg), speech_model, w)
         | None \<Rightarrow>
             (let w1 = emit (FileWritten input_path (buffer up)) (store_file input_path (buffer up) w)
              in if file_ext \<in> FUNASR_SUPPORTED_FORMATS
                 then transcribe rt speech_model input_path
                        (emits [StSpinner ''Transcribing audio...'', TranscribeCalled input_path] w1)
                 else
                   (let output_path = path_join temp_dir ''converted.wav'';
                        w2 = emits [StInfo (''Converting '' @ file_ext @ '' to WAV format...''),
                                    ConvertCalled input_path output_path] w1
                    in case convert_to_wav rt input_path output_path w2 of
                         (Inl e, w3) \<Rightarrow> (Inl e, speech_model, w3)
                       | (Inr False, w3) \<Rightarrow> (Inr PyNone, speech_model, w3)
                       | (Inr True, w3) \<Rightarrow>
                           transcribe rt speech_model output_path
                             (emits [StSuccess ''Conversion successful!'',
                                     StSpinner ''Transcribing audio...'',
                                     TranscribeCalled output_path] w3))))"

definition process_audio_file ::
  "runtime \<Rightarrow> uploaded_file \<Rightarrow> SpeechToTextModel \<Rightarrow> world
     \<Rightarrow> (exn + pyval) \<times> SpeechToTextModel \<times> world" where
  "process_audio_file rt up speech_model w =
     (let file_ext = file_extension (name up);
          temp_dir = mkdtemp rt
      in case process_in_temp_dir rt up speech_model file_ext temp_dir (create_temp_dir temp_dir w) of
           (r, speech_model', w') \<Rightarrow> (r, speech_model', remove_temp_dir temp_dir w'))"

definition transcription_failed_message :: string where
  "transcription_failed_message =
     [CHR 0xE2, CHR 0x9D, CHR 0x8C] @ '' Transcription failed. Please try a different file.''"

text \<open>
  \<open>main\<close>, from the click on the button: the transcription is displayed when it is
  truthy, and a failure is reported otherwise.
\<close>

definition main_transcribe ::
  "runtime \<Rightarrow> uploaded_file \<Rightarrow> SpeechToTextModel \<Rightarrow> world \<Rightarrow> (exn + unit) \<times> SpeechToTextModel \<times> world" where
  "main_transcribe rt up speech_model w =
     (case process_audio_file rt up speech_model w of
        (Inl e, speech_model', w') \<Rightarrow> (Inl e, speech_model', w')
      | (Inr transcription, speech_model', w') \<Rightarrow>
          (if truthy transcription
           then (Inr (), speech_model',
                 emits [StSuccess ([CHR 0xE2, CHR 0x9C, CHR 0x85] @ '' Transcription completed!''),
                        StSubheader ''Transcription Result'',
                        StTextArea ''Transcribed Text'' transcription,
                        StMarkdown (''### '' @ [CHR 0xF0, CHR 0x9F, CHR 0x93, CHR 0x8B] @ '' Copy to Clipboard''),
                        StCode transcription,
                        StInfo ([CHR 0xF0, CHR 0x9F, CHR 0x92, CHR 0xA1]
                          @ '' Click on the code block above to copy the text to your clipboard.'')] w')
           else (Inr (), speech_model', emit (StError transcription_failed_message) w')))"

section \<open>setup_ffmpeg.py\<close>

text \<open>
  The bootstrap script prints and starts processes. \<open>shell\<close> is its state: whether
  \<open>ffmpeg\<close> is resolvable on the command search path, and what the script has done
  so far.
\<close>

datatype sevent = Print string | SubprocessRun "string list"

record shell =
  on_path :: bool
  out :: "sevent list"

definition say :: "string \<Rightarrow> shell \<Rightarrow> shell" where
  "say line s = s\<lparr>out := out s @ [Print line]\<rparr>"

definition says :: "string list \<Rightarrow> shell \<Rightarrow> shell" where
  "says lines s = s\<lparr>out := out s @ map Print lines\<rparr>"

definition spawn :: "string list \<Rightarrow> shell \<Rightarrow> shell" where
  "spawn argv s = s\<lparr>out := out s @ [SubprocessRun argv]\<rparr>"

text \<open>
  How \<open>subprocess.run(..., check=True, timeout=300)\<close> ends; \<open>CalledProcessError\<close> and
  \<open>OtherException\<close> carry \<open>str(e)\<close>.
\<close>

datatype proc_outcome =
    Completed
  | CalledProcessError string
  | TimeoutExpired
  | FileNotFoundError
  | OtherException string



definition cross :: string where
  "cross = [CHR 0xE2, CHR 0x9D, CHR 0x8C]"






text \<open>What the \<open>except\<close> clauses of \<open>install_ffmpeg_linux\<close> print.\<close>

fun report_failure :: "proc_outcome \<Rightarrow> shell \<Rightarrow> shell" where
  "report_failure (CalledProcessError msg) s = say (cross @ '' Failed to install FFmpeg: '' @ msg) s"
| "report_failure TimeoutExpired s = say (cross @ '' Installation timed out'') s"
| "report_failure FileNotFoundError s =
     say (cross @ '' apt-get not found. Please install FFmpeg manually.'') s"
| "report_failure (OtherException msg) s =
     say (cross @ '' Unexpected error during installation: '' @ msg) s"
| "report_failure Completed s = s"






definition subprocess_runs :: "sevent list \<Rightarrow> string list list" where
  "subprocess_runs es = concat (map (\<lambda>e. case e of SubprocessRun argv \<Rightarrow> [argv] | Print line \<Rightarrow> []) es)"

section \<open>Reading a trace\<close>

fun convert_call :: "event \<Rightarrow> (string \<times> string) list" where
  "convert_call (ConvertCalled src dst) = [(src, dst)]"
| "convert_call e = []"

fun transcribe_call :: "event \<Rightarrow> string list" where
  "transcribe_call (TranscribeCalled p) = [p]"
| "transcribe_call e = []"

fun ffmpeg_start :: "event \<Rightarrow> (string \<times> string) list" where
  "ffmpeg_start (FfmpegStarted src dst) = [(src, dst)]"
| "ffmpeg_start e = []"

fun st_error :: "event \<Rightarrow> string list" where
  "st_error (StError msg) = [msg]"
| "st_error e = []"

fun file_write :: "event \<Rightarrow> (string \<times> byte list) list" where
  "file_write (FileWritten p content) = [(p, content)]"
| "file_write e = []"

text \<open>The calls of the converter, in order, with their source and destination.\<close>

definition convert_calls :: "event list \<Rightarrow> (string \<times> string) list" where
  "convert_calls tr = concat (map convert_call tr)"

text \<open>The calls of the transcription step, in order, with their input path.\<close>

definition transcribe_calls :: "event list \<Rightarrow> string list" where
  "transcribe_calls tr = concat (map transcribe_call tr)"

text \<open>The starts of the external tool.\<close>

definition ffmpeg_starts :: "event list \<Rightarrow> (string \<times> string) list" where
  "ffmpeg_starts tr = concat (map ffmpeg_start tr)"

text \<open>The messages shown with \<open>st.error\<close>.\<close>

definition st_errors :: "event list \<Rightarrow> string list" where
  "st_errors tr = concat (map st_error tr)"

text \<open>The files the application wrote.\<close>

definition file_writes :: "event list \<Rightarrow> (string \<times> byte list) list" where
  "file_writes tr = concat (map file_write tr)"

text \<open>\<open>sub in s\<close> on strings.\<close>

fun starts_with :: "string \<Rightarrow> string \<Rightarrow> bool" where
  "starts_with s [] = True"
| "starts_with [] (c # cs) = False"
| "starts_with (x # xs) (c # cs) = (x = c \<and> starts_with xs cs)"

fun contains :: "string \<Rightarrow> string \<Rightarrow> bool" where
  "contains [] sub = (sub = [])"
| "contains (x # xs) sub = (starts_with (x # xs) sub \<or> contains xs sub)"

section \<open>Sample runs\<close>

definition returning :: "'b \<Rightarrow> 'a \<Rightarrow> 'b" where
  "returning v = (\<lambda>x. v)"

text \<open>
  A host where everything works: the tool is installed and converts, the model is built
  and recognises \<open>hello\<close>.
\<close>

definition rt_ok :: runtime where
  "rt_ok =
     \<lparr>which = returning (Some ''/usr/bin/ffmpeg''),
      ffmpeg_run = returning (returning (RunOk [82, 73, 70, 70])),
      model_cached = False,
      construct_model = None,
      generate = returning (Inr (PyList [PyDict [(''key'', PyStr ''a''), (''text'', PyStr ''hello'')]])),
      mkdtemp = ''/tmp/tmpk3v9q1'',
      open_wb = returning None,
      container_repr = returning ''[...]''\<rparr>"

definition w_start :: world where
  "w_start = \<lparr>dirs = [''/tmp''], files = [], trace = []\<rparr>"

definition clip_mp4 :: uploaded_file where
  "clip_mp4 = \<lparr>name = ''clip.mp4'', buffer = [0, 0, 0, 24, 102, 116, 121, 112]\<rparr>"

definition speech_wav :: uploaded_file where
  "speech_wav = \<lparr>name = ''Speech.WAV'', buffer = [82, 73, 70, 70, 36, 0]\<rparr>"

text \<open>An upload whose declared file name is an absolute path.\<close>

definition absolute_wav :: uploaded_file where
  "absolute_wav = \<lparr>name = ''/srv/app/notes.wav'', buffer = [82, 73, 70, 70, 36, 0]\<rparr>"

definition fresh_model :: SpeechToTextModel where
  "fresh_model = \<lparr>model = None\<rparr>"




section \<open>Basic facts about the world\<close>

lemma trace_emit [simp]: "trace (emit e w) = trace w @ [e]" by (simp add: emit_def)
lemma trace_emits [simp]: "trace (emits es w) = trace w @ es" by (simp add: emits_def)
lemma trace_store_file [simp]: "trace (store_file p c w) = trace w" by (simp add: store_file_def)
lemma dirs_emit [simp]: "dirs (emit e w) = dirs w" by (simp add: emit_def)
lemma dirs_emits [simp]: "dirs (emits es w) = dirs w" by (simp add: emits_def)
lemma dirs_store_file [simp]: "dirs (store_file p c w) = dirs w" by (simp add: store_file_def)
lemma files_emit [simp]: "files (emit e w) = files w" by (simp add: emit_def)
lemma files_emits [simp]: "files (emits es w) = files w" by (simp add: emits_def)
lemma trace_create_temp_dir [simp]: "trace (create_temp_dir d w) = trace w @ [TempDirCreated d]"
  by (simp add: create_temp_dir_def)
lemma trace_remove_temp_dir [simp]: "trace (remove_temp_dir d w) = trace w @ [TempDirRemoved d]"
  by (simp add: remove_temp_dir_def)

lemma convert_calls_append [simp]: "convert_calls (xs @ ys) = convert_calls xs @ convert_calls ys"
  by (simp add: convert_calls_def)
lemma transcribe_calls_append [simp]: "transcribe_calls (xs @ ys) = transcribe_calls xs @ transcribe_calls ys"
  by (simp add: transcribe_calls_def)
lemma ffmpeg_starts_append [simp]: "ffmpeg_starts (xs @ ys) = ffmpeg_starts xs @ ffmpeg_starts ys"
  by (simp add: ffmpeg_starts_def)
lemma st_errors_append [simp]: "st_errors (xs @ ys) = st_errors xs @ st_errors ys"
  by (simp add: st_errors_def)
lemma file_writes_append [simp]: "file_writes (xs @ ys) = file_writes xs @ file_writes ys"
  by (simp add: file_writes_def)
lemma convert_calls_Cons [simp]: "convert_calls (e # es) = convert_call e @ convert_calls es"
  and convert_calls_Nil [simp]: "convert_calls [] = []"
  by (simp_all add: convert_calls_def)
lemma transcribe_calls_Cons [simp]: "transcribe_calls (e # es) = transcribe_call e @ transcribe_calls es"
  and transcribe_calls_Nil [simp]: "transcribe_calls [] = []"
  by (simp_all add: transcribe_calls_def)
lemma ffmpeg_starts_Cons [simp]: "ffmpeg_starts (e # es) = ffmpeg_start e @ ffmpeg_starts es"
  and ffmpeg_starts_Nil [simp]: "ffmpeg_starts [] = []"
  by (simp_all add: ffmpeg_starts_def)
lemma st_errors_Cons [simp]: "st_errors (e # es) = st_error e @ st_errors es"
  and st_errors_Nil [simp]: "st_errors [] = []"
  by (simp_all add: st_errors_def)
lemma file_writes_Cons [simp]: "file_writes (e # es) = file_write e @ file_writes es"
  and file_writes_Nil [simp]: "file_writes [] = []"
  by (simp_all add: file_writes_def)

section \<open>The transcription step\<close>






text \<open>
  The result of the transcription step does not depend on the world, and the step only
  adds user interface and model events; likewise for the converter.
\<close>

lemma transcribe_fst_indep:
  "fst (transcribe rt self p w) = fst (transcribe rt self p w0)"
  by (cases "model self"; cases "construct_model rt"; cases "generate rt p")
     (auto simp: transcribe_def transcribe_try_def get_model_def load_funasr_model_def Let_def
           split: sum.splits)

lemma transcribe_world:
  "\<exists>es. trace (snd (snd (transcribe rt self p w))) = trace w @ es
        \<and> convert_calls es = [] \<and> transcribe_calls es = [] \<and> ffmpeg_starts es = []
        \<and> file_writes es = []"
  and transcribe_dirs: "dirs (snd (snd (transcribe rt self p w))) = dirs w"
  and transcribe_files: "files (snd (snd (transcribe rt self p w))) = files w"
  by (cases "model self"; cases "construct_model rt"; cases "generate rt p";
      auto simp: transcribe_def transcribe_try_def get_model_def load_funasr_model_def Let_def
           split: sum.splits)+

lemma convert_fst_indep:
  "fst (convert_to_wav rt src dst w) = fst (convert_to_wav rt src dst w0)"
  by (auto simp: convert_to_wav_def Let_def split: run_outcome.splits sum.splits)


section \<open>The converter\<close>

text \<open>
  Claim C4. When \<open>ffmpeg\<close> is not resolvable on the command search path,
  \<open>convert_to_wav\<close> returns \<open>False\<close> for every pair of paths without starting the
  tool, and shows the user an error message that holds the installation guidance for
  Ubuntu/Debian, macOS and Windows.
\<close>

theorem convert_without_tool:
  assumes "which rt ''ffmpeg'' = None"
  shows "convert_to_wav rt input_path output_path w = (Inr False, emit (StError ffmpeg_missing_message) w)
       \<and> ffmpeg_starts (trace (snd (convert_to_wav rt input_path output_path w))) = ffmpeg_starts (trace w)
       \<and> st_errors (trace (snd (convert_to_wav rt input_path output_path w)))
           = st_errors (trace w) @ [ffmpeg_missing_message]
       \<and> contains ffmpeg_missing_message guidance_ubuntu
       \<and> contains ffmpeg_missing_message guidance_macos
       \<and> contains ffmpeg_missing_message guidance_windows"
proof -
  have run: "convert_to_wav rt input_path output_path w = (Inr False, emit (StError ffmpeg_missing_message) w)"
    using assms by (simp add: convert_to_wav_def is_ffmpeg_available_def)
  have u: "contains ffmpeg_missing_message guidance_ubuntu" by code_simp
  have m: "contains ffmpeg_missing_message guidance_macos" by code_simp
  have x: "contains ffmpeg_missing_message guidance_windows" by code_simp
  from run u m x show ?thesis by simp
qed

theorem convert_without_tool_witness:
  "which (rt_ok\<lparr>which := returning None\<rparr>) ''ffmpeg'' = None
   \<and> convert_to_wav (rt_ok\<lparr>which := returning None\<rparr>) ''/tmp/tmpk3v9q1/clip.mp4''
        ''/tmp/tmpk3v9q1/converted.wav'' w_start
       = (Inr False, emit (StError ffmpeg_missing_message) w_start)"
  using convert_without_tool
          [where rt = "rt_ok\<lparr>which := returning None\<rparr>"
             and input_path = "''/tmp/tmpk3v9q1/clip.mp4''"
             and output_path = "''/tmp/tmpk3v9q1/converted.wav''" and w = w_start]
  by (simp add: rt_ok_def returning_def)

section \<open>Processing an upload\<close>

text \<open>
  Claim C5. After \<open>process_audio_file\<close> has returned, by whichever exit (a
  transcription, the early return after a failed conversion, a failed transcription, or
  an exception passing through), the temporary directory it created is not among the
  directories of the file system, and no directory or file below it is left.
\<close>

theorem temp_dir_removed:
  "mkdtemp rt \<notin> set (dirs (snd (snd (process_audio_file rt up speech_model w))))
   \<and> filter (inside_dir (mkdtemp rt)) (dirs (snd (snd (process_audio_file rt up speech_model w)))) = []
   \<and> filter (inside_dir (mkdtemp rt)) (map fst (files (snd (snd (process_audio_file rt up speech_model w))))) = []"
  by (auto simp: process_audio_file_def Let_def remove_temp_dir_def filter_empty_conv split: prod.splits)

theorem temp_dir_removed_witness:
  "mkdtemp rt_ok \<notin> set (dirs (snd (snd (process_audio_file rt_ok clip_mp4 fresh_model w_start))))
   \<and> mkdtemp rt_ok \<notin> set (dirs (snd (snd (process_audio_file (rt_ok\<lparr>which := returning None\<rparr>)
                                              clip_mp4 fresh_model w_start))))
   \<and> mkdtemp rt_ok \<notin> set (dirs (snd (snd (process_audio_file
                                              (rt_ok\<lparr>generate := returning (Inl ''decoder failed'')\<rparr>)
                                              speech_wav fresh_model w_start))))"
  using temp_dir_removed [where rt = rt_ok and up = clip_mp4 and speech_model = fresh_model and w = w_start]
        temp_dir_removed [where rt = "rt_ok\<lparr>which := returning None\<rparr>" and up = clip_mp4
                            and speech_model = fresh_model and w = w_start]
        temp_dir_removed [where rt = "rt_ok\<lparr>generate := returning (Inl ''decoder failed'')\<rparr>"
                            and up = speech_wav and speech_model = fresh_model and w = w_start]
  by (simp add: rt_ok_def)

lemma path_join_plain:
  assumes "d \<noteq> []" and "last d \<noteq> CHR ''/''" and "b \<noteq> []" and "hd b \<noteq> CHR ''/''"
  shows "path_join d b = d @ ''/'' @ b"
  using assms by (simp add: path_join_def)


lemma process_audio_file_unfold:
  "process_audio_file rt up sm w =
     (fst (process_in_temp_dir rt up sm (file_extension (name up)) (mkdtemp rt) (create_temp_dir (mkdtemp rt) w)),
      fst (snd (process_in_temp_dir rt up sm (file_extension (name up)) (mkdtemp rt) (create_temp_dir (mkdtemp rt) w))),
      remove_temp_dir (mkdtemp rt)
        (snd (snd (process_in_temp_dir rt up sm (file_extension (name up)) (mkdtemp rt) (create_temp_dir (mkdtemp rt) w)))))"
  by (simp add: process_audio_file_def Let_def split: prod.splits)



lemma process_in_temp_dir_native:
  assumes "file_ext \<in> FUNASR_SUPPORTED_FORMATS"
      and "open_wb rt (path_join d (name up)) = None"
  shows "process_in_temp_dir rt up sm file_ext d w =
           transcribe rt sm (path_join d (name up))
             (emits [StSpinner ''Transcribing audio...'', TranscribeCalled (path_join d (name up))]
                (emit (FileWritten (path_join d (name up)) (buffer up))
                   (store_file (path_join d (name up)) (buffer up) w)))"
  using assms by (simp add: process_in_temp_dir_def Let_def)

lemma process_in_temp_dir_unsaved:
  assumes "open_wb rt (path_join d (name up)) = Some msg"
  shows "process_in_temp_dir rt up sm file_ext d w = (Inl (Exception msg), sm, w)"
  using assms by (simp add: process_in_temp_dir_def Let_def)

text \<open>
  Claim C3. For an upload whose lowercase extension is in the natively supported set,
  \<open>process_audio_file\<close> never calls the converter and never starts the external
  tool; once the upload has been saved, the transcription step is called exactly once,
  on the very path the upload was saved at, and its result is the result of
  \<open>process_audio_file\<close>.
\<close>

theorem process_native_skips_converter:
  assumes "file_extension (name up) \<in> FUNASR_SUPPORTED_FORMATS"
  shows "convert_calls (trace (snd (snd (process_audio_file rt up speech_model w)))) = convert_calls (trace w)
       \<and> ffmpeg_starts (trace (snd (snd (process_audio_file rt up speech_model w)))) = ffmpeg_starts (trace w)
       \<and> (open_wb rt (path_join (mkdtemp rt) (name up)) = None \<longrightarrow>
            file_writes (trace (snd (snd (process_audio_file rt up speech_model w))))
              = file_writes (trace w) @ [(path_join (mkdtemp rt) (name up), buffer up)]
          \<and> transcribe_calls (trace (snd (snd (process_audio_file rt up speech_model w))))
              = transcribe_calls (trace w) @ [path_join (mkdtemp rt) (name up)]
          \<and> fst (process_audio_file rt up speech_model w)
              = fst (transcribe rt speech_model (path_join (mkdtemp rt) (name up)) w))"
proof (cases "open_wb rt (path_join (mkdtemp rt) (name up))")
  case None
  let ?src = "path_join (mkdtemp rt) (name up)"
  let ?w2 = "emits [StSpinner ''Transcribing audio...'', TranscribeCalled ?src]
               (emit (FileWritten ?src (buffer up))
                  (store_file ?src (buffer up) (create_temp_dir (mkdtemp rt) w)))"
  have body: "process_in_temp_dir rt up speech_model (file_extension (name up)) (mkdtemp rt)
                (create_temp_dir (mkdtemp rt) w) = transcribe rt speech_model ?src ?w2"
    using assms None by (rule process_in_temp_dir_native)
  obtain es where es: "trace (snd (snd (transcribe rt speech_model ?src ?w2))) = trace ?w2 @ es"
      "convert_calls es = []" "transcribe_calls es = []" "ffmpeg_starts es = []" "file_writes es = []"
    using transcribe_world [of rt speech_model ?src ?w2] by auto
  have r: "fst (transcribe rt speech_model ?src ?w2) = fst (transcribe rt speech_model ?src w)"
    by (rule transcribe_fst_indep)
  show ?thesis
    using es r by (simp add: process_audio_file_unfold body)
next
  case (Some msg)
  then show ?thesis
    by (simp add: process_audio_file_unfold process_in_temp_dir_unsaved)
qed

theorem process_native_skips_converter_witness:
  "file_extension (name speech_wav) \<in> FUNASR_SUPPORTED_FORMATS
   \<and> open_wb rt_ok (path_join (mkdtemp rt_ok) (name speech_wav)) = None
   \<and> convert_calls (trace (snd (snd (process_audio_file rt_ok speech_wav fresh_model w_start)))) = []
   \<and> ffmpeg_starts (trace (snd (snd (process_audio_file rt_ok speech_wav fresh_model w_start)))) = []
   \<and> transcribe_calls (trace (snd (snd (process_audio_file rt_ok speech_wav fresh_model w_start))))
       = [''/tmp/tmpk3v9q1/Speech.WAV'']"
  using process_native_skips_converter
          [where rt = rt_ok and up = speech_wav and speech_model = fresh_model and w = w_start]
  by (simp add: rt_ok_def speech_wav_def w_start_def returning_def path_join_def file_extension_def
        lower_def lower_char_def path_suffix_def path_name_def FUNASR_SUPPORTED_FORMATS_def)

text \<open>
  Claim C6. The upload is written to \<open>os.path.join(temp_dir, name)\<close>, with the bytes
  of its buffer. For an upload whose declared name is the absolute path
  \<open>/srv/app/notes.wav\<close>, that path is the declared name itself: the file is written
  outside the temporary directory, and it is still there after \<open>process_audio_file\<close>
  has returned and the directory has been removed.
\<close>

theorem absolute_name_written_outside_temp_dir:
  "file_writes (trace (snd (snd (process_audio_file rt_ok absolute_wav fresh_model w_start))))
     = [(''/srv/app/notes.wav'', buffer absolute_wav)]
   \<and> \<not> inside_dir (mkdtemp rt_ok) ''/srv/app/notes.wav''
   \<and> read_file (snd (snd (process_audio_file rt_ok absolute_wav fresh_model w_start))) ''/srv/app/notes.wav''
       = Some (buffer absolute_wav)"
  by (simp add: process_audio_file_def process_in_temp_dir_def transcribe_def transcribe_try_def
        get_model_def load_funasr_model_def extract_text_def Let_def
        rt_ok_def absolute_wav_def fresh_model_def w_start_def returning_def
        path_join_def file_extension_def lower_def lower_char_def path_suffix_def path_name_def
        FUNASR_SUPPORTED_FORMATS_def create_temp_dir_def remove_temp_dir_def emit_def emits_def
        store_file_def read_file_def inside_dir_def)

text \<open>
  A declared name without a separator is saved directly below the temporary directory.
\<close>

lemma plain_name_saved_inside:
  assumes "d \<noteq> []" and "last d \<noteq> CHR ''/''" and "n \<noteq> []" and "CHR ''/'' \<notin> set n"
  shows "path_join d n = d @ ''/'' @ n" and "inside_dir d (path_join d n)"
proof -
  from assms(3,4) have "hd n \<noteq> CHR ''/''" by (cases n) auto
  with assms show "path_join d n = d @ ''/'' @ n" by (simp add: path_join_def)
  then show "inside_dir d (path_join d n)" by (simp add: inside_dir_def)
qed






section \<open>Exceptions\<close>



lemma convert_True_no_error:
  assumes "fst (convert_to_wav rt src dst w) = Inr True"
  shows "st_errors (trace (snd (convert_to_wav rt src dst w))) = st_errors (trace w)"
  using assms
  by (cases "ffmpeg_run rt src dst")
     (auto simp: convert_to_wav_def Let_def split: sum.splits if_splits)






section \<open>The empty transcript\<close>

lemma transcribe_value_no_error:
  assumes "construct_model rt = None \<or> model_cached rt \<or> model self \<noteq> None"
      and "generate rt p = Inr result" and "extract_text rt result = Inr v"
  shows "fst (transcribe rt self p w) = Inr v"
    and "st_errors (trace (snd (snd (transcribe rt self p w)))) = st_errors (trace w)"
  using assms
  by (cases "model self"; cases "construct_model rt";
      auto simp: transcribe_def transcribe_try_def get_model_def load_funasr_model_def Let_def)+

lemma process_in_temp_dir_converted:
  assumes "file_ext \<notin> FUNASR_SUPPORTED_FORMATS"
      and "open_wb rt (path_join d (name up)) = None"
      and "fst (convert_to_wav rt (path_join d (name up)) (path_join d ''converted.wav'') w0) = Inr True"
  shows "\<exists>w3. process_in_temp_dir rt up sm file_ext d w =
                 transcribe rt sm (path_join d ''converted.wav'')
                   (emits [StSuccess ''Conversion successful!'', StSpinner ''Transcribing audio...'',
                           TranscribeCalled (path_join d ''converted.wav'')] w3)
              \<and> st_errors (trace w3) = st_errors (trace w)"
proof -
  let ?src = "path_join d (name up)"
  let ?dst = "path_join d ''converted.wav''"
  let ?w2 = "emits [StInfo (''Converting '' @ file_ext @ '' to WAV format...''), ConvertCalled ?src ?dst]
               (emit (FileWritten ?src (buffer up)) (store_file ?src (buffer up) w))"
  have t: "fst (convert_to_wav rt ?src ?dst ?w2) = Inr True"
    using assms(3) convert_fst_indep [of rt ?src ?dst ?w2 w0] by simp
  then obtain w3 where cv: "convert_to_wav rt ?src ?dst ?w2 = (Inr True, w3)"
    by (cases "convert_to_wav rt ?src ?dst ?w2") auto
  have "st_errors (trace w3) = st_errors (trace ?w2)"
    using convert_True_no_error [OF t] cv by simp
  then have e: "st_errors (trace w3) = st_errors (trace w)" by simp
  have "process_in_temp_dir rt up sm file_ext d w =
          transcribe rt sm ?dst
            (emits [StSuccess ''Conversion successful!'', StSpinner ''Transcribing audio...'',
                    TranscribeCalled ?dst] w3)"
    using assms(1,2) cv by (simp add: process_in_temp_dir_def Let_def)
  with e show ?thesis by blast
qed

lemma main_transcribe_falsy:
  assumes "fst (process_audio_file rt up sm w) = Inr v" and "\<not> truthy v"
  shows "fst (main_transcribe rt up sm w) = Inr ()"
    and "st_errors (trace (snd (snd (main_transcribe rt up sm w))))
           = st_errors (trace (snd (snd (process_audio_file rt up sm w))))
               @ [transcription_failed_message]"
  using assms
  by (cases "process_audio_file rt up sm w"; simp add: main_transcribe_def)+

text \<open>
  Claim C10. When the first result is a dictionary whose \<open>text\<close> field is the empty
  string, \<open>transcribe\<close> returns the empty string and reports no error; when
  \<open>process_audio_file\<close> reaches the transcription step (directly for a native file,
  or after a successful conversion), it returns that empty string and no error has been
  reported; only \<open>main\<close>, testing the truth value of the result, reports the failure.
\<close>

theorem empty_transcript_is_not_an_error:
  assumes avail: "construct_model rt = None \<or> model_cached rt \<or> model self \<noteq> None"
      and gen: "generate rt p = Inr (PyList (PyDict d # rs))"
      and empty: "map_of d ''text'' = Some (PyStr [])"
  shows "fst (transcribe rt self p w) = Inr (PyStr [])
       \<and> st_errors (trace (snd (snd (transcribe rt self p w)))) = st_errors (trace w)
       \<and> (open_wb rt (path_join (mkdtemp rt) (name up)) = None
            \<and> (file_extension (name up) \<in> FUNASR_SUPPORTED_FORMATS \<and> p = path_join (mkdtemp rt) (name up)
               \<or> file_extension (name up) \<notin> FUNASR_SUPPORTED_FORMATS
                  \<and> fst (convert_to_wav rt (path_join (mkdtemp rt) (name up))
                            (path_join (mkdtemp rt) ''converted.wav'') w) = Inr True
                  \<and> p = path_join (mkdtemp rt) ''converted.wav'')
          \<longrightarrow> fst (process_audio_file rt up self w) = Inr (PyStr [])
              \<and> st_errors (trace (snd (snd (process_audio_file rt up self w)))) = st_errors (trace w)
              \<and> fst (main_transcribe rt up self w) = Inr ()
              \<and> st_errors (trace (snd (snd (main_transcribe rt up self w))))
                  = st_errors (trace w)
                      @ [transcription_failed_message])"
proof -
  have ex: "extract_text rt (PyList (PyDict d # rs)) = Inr (PyStr [])"
    using empty by (simp add: extract_text_def)
  note T = transcribe_value_no_error [OF avail gen ex]
  have proc: "fst (process_audio_file rt up self w) = Inr (PyStr [])
              \<and> st_errors (trace (snd (snd (process_audio_file rt up self w)))) = st_errors (trace w)"
    if saved: "open_wb rt (path_join (mkdtemp rt) (name up)) = None"
    and path: "file_extension (name up) \<in> FUNASR_SUPPORTED_FORMATS \<and> p = path_join (mkdtemp rt) (name up)
               \<or> file_extension (name up) \<notin> FUNASR_SUPPORTED_FORMATS
                  \<and> fst (convert_to_wav rt (path_join (mkdtemp rt) (name up))
                            (path_join (mkdtemp rt) ''converted.wav'') w) = Inr True
                  \<and> p = path_join (mkdtemp rt) ''converted.wav''"
  proof -
    from path show ?thesis
    proof
      assume n: "file_extension (name up) \<in> FUNASR_SUPPORTED_FORMATS \<and> p = path_join (mkdtemp rt) (name up)"
      then show ?thesis
        using process_in_temp_dir_native [of "file_extension (name up)" rt "mkdtemp rt" up self
                "create_temp_dir (mkdtemp rt) w"] saved T
        by (simp add: process_audio_file_unfold)
    next
      assume c: "file_extension (name up) \<notin> FUNASR_SUPPORTED_FORMATS
                  \<and> fst (convert_to_wav rt (path_join (mkdtemp rt) (name up))
                            (path_join (mkdtemp rt) ''converted.wav'') w) = Inr True
                  \<and> p = path_join (mkdtemp rt) ''converted.wav''"
      then obtain w3 where
        "process_in_temp_dir rt up self (file_extension (name up)) (mkdtemp rt) (create_temp_dir (mkdtemp rt) w) =
           transcribe rt self p
             (emits [StSuccess ''Conversion successful!'', StSpinner ''Transcribing audio...'',
                     TranscribeCalled p] w3)"
        and "st_errors (trace w3) = st_errors (trace (create_temp_dir (mkdtemp rt) w))"
        using process_in_temp_dir_converted [of "file_extension (name up)" rt "mkdtemp rt" up w self
                "create_temp_dir (mkdtemp rt) w"] saved
        by auto
      then show ?thesis
        using T by (simp add: process_audio_file_unfold)
    qed
  qed
  have main: "fst (main_transcribe rt up self w) = Inr ()
              \<and> st_errors (trace (snd (snd (main_transcribe rt up self w))))
                  = st_errors (trace w)
                      @ [transcription_failed_message]"
    if "fst (process_audio_file rt up self w) = Inr (PyStr [])
              \<and> st_errors (trace (snd (snd (process_audio_file rt up self w)))) = st_errors (trace w)"
    using that main_transcribe_falsy [of rt up self w "PyStr []"] by simp
  from T proc main show ?thesis by blast
qed

theorem empty_transcript_is_not_an_error_witness:
  "(construct_model rt_ok = None \<or> model_cached rt_ok \<or> model fresh_model \<noteq> None)
   \<and> generate (rt_ok\<lparr>generate := returning (Inr (PyList [PyDict [(''text'', PyStr [])]]))\<rparr>)
        ''/tmp/tmpk3v9q1/Speech.WAV'' = Inr (PyList [PyDict [(''text'', PyStr [])]])
   \<and> map_of [(''text'', PyStr [])] ''text'' = Some (PyStr [])
   \<and> open_wb rt_ok (path_join (mkdtemp rt_ok) (name speech_wav)) = None
   \<and> file_extension (name speech_wav) \<in> FUNASR_SUPPORTED_FORMATS
   \<and> path_join (mkdtemp rt_ok) (name speech_wav) = ''/tmp/tmpk3v9q1/Speech.WAV''
   \<and> fst (transcribe (rt_ok\<lparr>generate := returning (Inr (PyList [PyDict [(''text'', PyStr [])]]))\<rparr>)
            fresh_model ''/tmp/tmpk3v9q1/Speech.WAV'' w_start) = Inr (PyStr [])
   \<and> fst (process_audio_file (rt_ok\<lparr>generate := returning (Inr (PyList [PyDict [(''text'', PyStr [])]]))\<rparr>)
            speech_wav fresh_model w_start) = Inr (PyStr [])
   \<and> st_errors (trace (snd (snd (process_audio_file
            (rt_ok\<lparr>generate := returning (Inr (PyList [PyDict [(''text'', PyStr [])]]))\<rparr>)
            speech_wav fresh_model w_start)))) = []
   \<and> st_errors (trace (snd (snd (main_transcribe
            (rt_ok\<lparr>generate := returning (Inr (PyList [PyDict [(''text'', PyStr [])]]))\<rparr>)
            speech_wav fresh_model w_start))))
       = [transcription_failed_message]"
  using empty_transcript_is_not_an_error
          [where rt = "rt_ok\<lparr>generate := returning (Inr (PyList [PyDict [(''text'', PyStr [])]]))\<rparr>"
             and self = fresh_model and p = "''/tmp/tmpk3v9q1/Speech.WAV''" and w = w_start
             and d = "[(''text'', PyStr [])]" and rs = "[]" and up = speech_wav]
  by (simp add: rt_ok_def speech_wav_def w_start_def returning_def path_join_def file_extension_def
        lower_def lower_char_def path_suffix_def path_name_def FUNASR_SUPPORTED_FORMATS_def)

section \<open>The bootstrap script\<close>

lemma on_path_say [simp]: "on_path (say l s) = on_path s" by (simp add: say_def)
lemma on_path_says [simp]: "on_path (says ls s) = on_path s" by (simp add: says_def)
lemma on_path_spawn [simp]: "on_path (spawn argv s) = on_path s" by (simp add: spawn_def)
lemma on_path_report_failure [simp]: "on_path (report_failure r s) = on_path s" by (cases r) simp_all

lemma subprocess_runs_append [simp]:
  "subprocess_runs (xs @ ys) = subprocess_runs xs @ subprocess_runs ys"
  by (simp add: subprocess_runs_def)
lemma subprocess_runs_Print [simp]: "subprocess_runs (map Print ls) = []"
  by (induction ls) (simp_all add: subprocess_runs_def)
lemma subprocess_runs_say [simp]: "subprocess_runs (out (say l s)) = subprocess_runs (out s)"
  by (simp add: say_def subprocess_runs_def)
lemma subprocess_runs_says [simp]: "subprocess_runs (out (says ls s)) = subprocess_runs (out s)"
  by (simp add: says_def)









end
